theory Spec2Isabelle
  imports Main "HOL-Library.Word"
begin

section \<open>Values of the platform\<close>

text \<open>
  The library is a thin layer over the platform's \<^verbatim>\<open>crypto.subtle\<close>. Its data are
  plain JavaScript objects (an algorithm descriptor is an object with a \<^verbatim>\<open>name\<close> and
  further parameters), strings, numbers and byte buffers. An object is a finite map
  from property names to values; reading a property the object lacks gives
  \<^verbatim>\<open>undefined\<close>.
\<close>

type_synonym bytes = "8 word list"

datatype jsval =
    Undefined
  | Str string
  | Num int
  | Buf bytes

type_synonym object = "string \<rightharpoonup> jsval"

definition get_prop :: "object \<Rightarrow> string \<Rightarrow> jsval" where
  \<comment> \<open>reading a property, as in key.algorithm.name\<close>
  "get_prop obj p = (case obj p of None \<Rightarrow> Undefined | Some v \<Rightarrow> v)"

definition spread :: "object \<Rightarrow> object option \<Rightarrow> object" where
  \<comment> \<open>object spread of a, then b: the properties of b win; spreading undefined adds nothing\<close>
  "spread a b = (case b of None \<Rightarrow> a | Some b' \<Rightarrow> a ++ b')"

definition array_includes :: "'a list \<Rightarrow> 'a \<Rightarrow> bool" where
  \<comment> \<open>Array.prototype.includes\<close>
  "array_includes xs x = (x \<in> set xs)"

text \<open>The string-literal types of the platform's declarations.\<close>

datatype KeyUsage =
    Encrypt | Decrypt | Sign | Verify | DeriveKey | DeriveBits | WrapKey | UnwrapKey

datatype KeyType = Private | Public | Secret

datatype KeyFormat = Jwk | Pkcs8 | Raw | Spki

record CryptoKey =
  algorithm :: object
  extractable :: bool
  type :: KeyType
  usages :: "KeyUsage list"

text \<open>A payload is \<^verbatim>\<open>string | ArrayBuffer\<close>; key material is a \<^verbatim>\<open>JsonWebKey\<close> or an
  \<^verbatim>\<open>ArrayBuffer\<close>.\<close>

datatype payload = Text string | ArrayBuffer bytes

datatype key_data = JsonWebKey object | KeyBuffer bytes

section \<open>The engine and the outcome of a call\<close>

text \<open>
  Every function of the library either throws an \<^verbatim>\<open>Error\<close> of its own or returns,
  unchanged, the promise of exactly one call to \<^verbatim>\<open>crypto.subtle\<close>. The call, with the
  arguments it is given, is a value of \<open>engine_call\<close>; a function of the library
  returns \<open>Inl\<close> of the error it throws or \<open>Inr\<close> of the engine call it makes.
\<close>

datatype error = Error string

datatype engine_call =
    SubtleEncrypt object CryptoKey bytes
  | SubtleDecrypt object CryptoKey bytes
  | SubtleSign object CryptoKey bytes
  | SubtleVerify object CryptoKey bytes bytes
  | SubtleGenerateKey object bool "KeyUsage list"
  | SubtleImportKey KeyFormat key_data object bool "KeyUsage list"
  | SubtleExportKey KeyFormat CryptoKey

text \<open>
  Running a function against an engine: what the caller gets (the thrown error, or
  whatever the engine answers, a failure of its own included) and the list of calls
  the engine has received.
\<close>

datatype 'r outcome = Threw error | Returned 'r

definition perform :: "(engine_call \<Rightarrow> 'r) \<Rightarrow> error + engine_call \<Rightarrow> 'r outcome \<times> engine_call list" where
  "perform engine r =
     (case r of
        Inl e \<Rightarrow> (Threw e, [])
      | Inr c \<Rightarrow> (Returned (engine c), [c]))"

text \<open>The names the specification gives to the errors the code throws.\<close>

definition UnsupportedAlgorithm :: error where
  "UnsupportedAlgorithm = Error ''Unsupported algorithm''"

definition UsageDenied :: "string \<Rightarrow> error" where
  "UsageDenied activity = Error (''Key does not support '' @ activity)"

definition NotExtractable :: error where
  "NotExtractable = Error ''Key does not support exporting''"

section \<open>generate.ts: profiles and key generation\<close>

record KeyGenParams =
  algorithm :: object
  extractable :: bool
  keyUsages :: "KeyUsage list"

datatype purpose = Signing | Encrypting

datatype aes_purpose =
    Wrapping
  | Fixed_length_encryption
  | Variable_length_encryption
  | Integrity_protection

datatype curve = P_256 | P_384 | P_521

datatype hash = SHA_256 | SHA_384 | SHA_512

fun curve_str :: "curve \<Rightarrow> string" where
  "curve_str P_256 = ''P-256''"
| "curve_str P_384 = ''P-384''"
| "curve_str P_521 = ''P-521''"

fun hash_str :: "hash \<Rightarrow> string" where
  "hash_str SHA_256 = ''SHA-256''"
| "hash_str SHA_384 = ''SHA-384''"
| "hash_str SHA_512 = ''SHA-512''"

definition or_default :: "'a \<Rightarrow> 'a option \<Rightarrow> 'a" where
  \<comment> \<open>a parameter with a default value, used when the argument is undefined\<close>
  "or_default d p = (case p of None \<Rightarrow> d | Some v \<Rightarrow> v)"

definition generateKey :: "KeyGenParams \<Rightarrow> bool option \<Rightarrow> error + engine_call" where
  "generateKey options extractable' =
     Inr (SubtleGenerateKey
       (KeyGenParams.algorithm options)
       (case extractable' of Some e \<Rightarrow> e | None \<Rightarrow> KeyGenParams.extractable options)
       (keyUsages options))"

definition ecKey :: "purpose \<Rightarrow> curve option \<Rightarrow> KeyGenParams" where
  "ecKey purpose curve' =
     (let curve = or_default P_256 curve' in
      \<lparr> algorithm = [
          ''name'' \<mapsto> Str (if purpose = Signing then ''ECDSA'' else ''ECDH''),
          ''namedCurve'' \<mapsto> Str (curve_str curve)],
        extractable = True,
        keyUsages = (if purpose = Signing
          then [Sign, Verify]
          else [DeriveKey, DeriveBits]) \<rparr>)"

definition rsaKey :: "purpose \<Rightarrow> int option \<Rightarrow> hash option \<Rightarrow> KeyGenParams" where
  "rsaKey purpose length' hash' =
     (let length = or_default 2048 length'; hash = or_default SHA_256 hash' in
      \<lparr> algorithm = [
          ''name'' \<mapsto> Str (if purpose = Signing then ''RSA-PSS'' else ''RSA-OAEP''),
          ''hash'' \<mapsto> Str (hash_str hash),
          ''modulusLength'' \<mapsto> Num length,
          ''publicExponent'' \<mapsto> Buf [0x01, 0x00, 0x01]],
        extractable = True,
        keyUsages = (if purpose = Signing
          then [Sign, Verify]
          else [Encrypt, Decrypt, WrapKey, UnwrapKey]) \<rparr>)"

definition hmacKey :: "hash option \<Rightarrow> int option \<Rightarrow> KeyGenParams" where
  "hmacKey hash' length' =
     (let hash = or_default SHA_256 hash' in
      \<lparr> algorithm = [
          ''name'' \<mapsto> Str ''HMAC'',
          ''hash'' \<mapsto> Str (hash_str hash),
          ''length'' \<mapsto> (case length' of None \<Rightarrow> Undefined | Some n \<Rightarrow> Num n)],
        extractable = True,
        keyUsages = [Sign, Verify] \<rparr>)"

definition aesKey :: "aes_purpose \<Rightarrow> int option \<Rightarrow> KeyGenParams" where
  "aesKey purpose length' =
     (let length = or_default 256 length' in
      \<lparr> algorithm = [
          ''name'' \<mapsto> Str (if purpose = Wrapping
            then ''AES-KW''
            else if purpose = Integrity_protection
            then ''AES-GCM''
            else if purpose = Fixed_length_encryption
            then ''AES-CBC''
            else ''AES-CTR''),
          ''length'' \<mapsto> Num length],
        extractable = True,
        keyUsages = (if purpose = Wrapping
          then [WrapKey, UnwrapKey]
          else [Encrypt, Decrypt]) \<rparr>)"

definition edKey :: "KeyGenParams" where
  "edKey =
     \<lparr> algorithm = [''name'' \<mapsto> Str ''Ed25519''],
       extractable = True,
       keyUsages = [Sign, Verify] \<rparr>"

definition xKey :: "KeyGenParams" where
  "xKey =
     \<lparr> algorithm = [''name'' \<mapsto> Str ''X25519''],
       extractable = True,
       keyUsages = [DeriveKey, DeriveBits] \<rparr>"

section \<open>encrypt.ts and sign.ts: the four operations\<close>

text \<open>
  The platform's \<^verbatim>\<open>TextEncoder.encode\<close> (the UTF-8 encoding of a string) is not code of
  the library: the operations take it as the parameter \<open>TextEncoder_encode\<close>. The
  parameter \<open>options\<close> is optional (\<open>None\<close> when the caller leaves it out).
\<close>

definition encrypt ::
  "(string \<Rightarrow> bytes) \<Rightarrow> payload \<Rightarrow> CryptoKey \<Rightarrow> object option \<Rightarrow> error + engine_call" where
  "encrypt TextEncoder_encode data key options =
     (let algorithm = spread (CryptoKey.algorithm key) options;
          allowedAlgorithms = [Str ''RSA-OAEP'', Str ''AES-CTR'', Str ''AES-CBC'', Str ''AES-GCM'']
      in
        if \<not> array_includes allowedAlgorithms (get_prop (CryptoKey.algorithm key) ''name'') then
          Inl (Error ''Unsupported algorithm'')
        else if \<not> array_includes (usages key) Encrypt then
          Inl (Error ''Key does not support encryption'')
        else
          Inr (SubtleEncrypt
            algorithm
            key
            (case data of ArrayBuffer b \<Rightarrow> b | Text s \<Rightarrow> TextEncoder_encode s)))"

definition decrypt ::
  "(string \<Rightarrow> bytes) \<Rightarrow> payload \<Rightarrow> CryptoKey \<Rightarrow> object option \<Rightarrow> error + engine_call" where
  "decrypt TextEncoder_encode data key options =
     (let algorithm = spread (CryptoKey.algorithm key) options;
          allowedAlgorithms = [Str ''RSA-OAEP'', Str ''AES-CTR'', Str ''AES-CBC'', Str ''AES-GCM'']
      in
        if \<not> array_includes allowedAlgorithms (get_prop (CryptoKey.algorithm key) ''name'') then
          Inl (Error ''Unsupported algorithm'')
        else if \<not> array_includes (usages key) Decrypt then
          Inl (Error ''Key does not support decryption'')
        else
          Inr (SubtleDecrypt
            algorithm
            key
            (case data of ArrayBuffer b \<Rightarrow> b | Text s \<Rightarrow> TextEncoder_encode s)))"

definition sign ::
  "(string \<Rightarrow> bytes) \<Rightarrow> payload \<Rightarrow> CryptoKey \<Rightarrow> object option \<Rightarrow> error + engine_call" where
  "sign TextEncoder_encode data key options =
     (let algorithm = spread (CryptoKey.algorithm key) options;
          allowedAlgorithms = [Str ''RSA-PSS'', Str ''ECDSA'', Str ''HMAC'', Str ''Ed25519'']
      in
        if \<not> array_includes allowedAlgorithms (get_prop (CryptoKey.algorithm key) ''name'') then
          Inl (Error ''Unsupported algorithm'')
        else if \<not> array_includes (usages key) Sign then
          Inl (Error ''Key does not support signing'')
        else
          Inr (SubtleSign
            algorithm
            key
            (case data of ArrayBuffer b \<Rightarrow> b | Text s \<Rightarrow> TextEncoder_encode s)))"

definition verify ::
  "(string \<Rightarrow> bytes) \<Rightarrow> payload \<Rightarrow> CryptoKey \<Rightarrow> bytes \<Rightarrow> object option \<Rightarrow> error + engine_call" where
  "verify TextEncoder_encode data key signature options =
     (let algorithm = spread (CryptoKey.algorithm key) options;
          allowedAlgorithms = [Str ''RSA-PSS'', Str ''ECDSA'', Str ''HMAC'', Str ''Ed25519'']
      in
        if \<not> array_includes allowedAlgorithms (get_prop (CryptoKey.algorithm key) ''name'') then
          Inl (Error ''Unsupported algorithm'')
        else if \<not> array_includes (usages key) Verify then
          Inl (Error ''Key does not support verifying'')
        else
          Inr (SubtleVerify
            algorithm
            key
            signature
            (case data of ArrayBuffer b \<Rightarrow> b | Text s \<Rightarrow> TextEncoder_encode s)))"

text \<open>
  The declared type of \<open>options\<close> in both files is a union of the platform's parameter
  types with the property \<^verbatim>\<open>name\<close> taken out (\<^verbatim>\<open>Omit<..., "name">\<close>). The type is
  gone at run time and no statement of the four functions looks at the properties of
  \<open>options\<close>: the model takes any object, one that carries \<^verbatim>\<open>name\<close> included.
\<close>

section \<open>export.ts: export and import\<close>

definition exportKey :: "KeyFormat \<Rightarrow> CryptoKey \<Rightarrow> error + engine_call" where
  "exportKey format key =
     (if \<not> CryptoKey.extractable key then
        Inl (Error ''Key does not support exporting'')
      else if format = Jwk then
        Inr (SubtleExportKey Jwk key)
      else
        Inr (SubtleExportKey format key))"

definition importKey ::
  "KeyFormat \<Rightarrow> KeyType \<Rightarrow> key_data \<Rightarrow> KeyGenParams \<Rightarrow> bool option \<Rightarrow> error + engine_call" where
  "importKey format type' key options extractable' =
     (let keyUsages = filter (\<lambda>usage.
            if type' = Public \<and> (usage = Sign \<or> usage = UnwrapKey \<or> usage = Decrypt) then
              False
            else if type' = Private \<and> (usage = Verify \<or> usage = WrapKey \<or> usage = Encrypt) then
              False
            else
              True) (KeyGenParams.keyUsages options)
      in
        if format = Jwk then
          Inr (SubtleImportKey
            format
            key
            (KeyGenParams.algorithm options)
            (case extractable' of Some e \<Rightarrow> e | None \<Rightarrow> KeyGenParams.extractable options)
            keyUsages)
        else
          Inr (SubtleImportKey
            format
            key
            (KeyGenParams.algorithm options)
            (case extractable' of Some e \<Rightarrow> e | None \<Rightarrow> KeyGenParams.extractable options)
            keyUsages))"

section \<open>Sample values for the worked examples\<close>

text \<open>
  A sample of the platform's encoder: UTF-8 on the code points below 256, which are
  the ones a character of \<open>string\<close> can hold (one byte below 128, two bytes from there).
\<close>

definition utf8 :: "string \<Rightarrow> bytes" where
  "utf8 s = concat (map (\<lambda>c.
     let n = (of_char c :: nat) in
       if n < 128 then [of_nat n] else [of_nat (192 + n div 64), of_nat (128 + n mod 64)]) s)"

text \<open>
  Sample keys, as an engine makes them from the profiles: the descriptor of the profile,
  and the usages of the profile that fit the half of the pair. The HMAC key is one
  generated as not extractable.
\<close>

definition rsa_oaep_public :: CryptoKey where
  "rsa_oaep_public =
     \<lparr> CryptoKey.algorithm = KeyGenParams.algorithm (rsaKey Encrypting None None),
       extractable = True, type = Public, usages = [Encrypt, WrapKey] \<rparr>"

definition rsa_oaep_private :: CryptoKey where
  "rsa_oaep_private =
     \<lparr> CryptoKey.algorithm = KeyGenParams.algorithm (rsaKey Encrypting None None),
       extractable = True, type = Private, usages = [Decrypt, UnwrapKey] \<rparr>"

definition rsa_pss_public :: CryptoKey where
  "rsa_pss_public =
     \<lparr> CryptoKey.algorithm = KeyGenParams.algorithm (rsaKey Signing None None),
       extractable = True, type = Public, usages = [Verify] \<rparr>"

definition rsa_pss_private :: CryptoKey where
  "rsa_pss_private =
     \<lparr> CryptoKey.algorithm = KeyGenParams.algorithm (rsaKey Signing None None),
       extractable = True, type = Private, usages = [Sign] \<rparr>"

definition hmac_secret :: CryptoKey where
  "hmac_secret =
     \<lparr> CryptoKey.algorithm = KeyGenParams.algorithm (hmacKey None None),
       extractable = False, type = Secret, usages = [Sign, Verify] \<rparr>"

definition aes_kw_secret :: CryptoKey where
  "aes_kw_secret =
     \<lparr> CryptoKey.algorithm = KeyGenParams.algorithm (aesKey Wrapping None),
       extractable = True, type = Secret, usages = [WrapKey, UnwrapKey] \<rparr>"

section \<open>Basic facts\<close>

lemma get_prop_upd [simp]:
  "get_prop (m(k \<mapsto> v)) p = (if p = k then v else get_prop m p)"
  by (simp add: get_prop_def)

lemma get_prop_empty [simp]: "get_prop Map.empty p = Undefined"
  by (simp add: get_prop_def)

lemmas operation_defs =
  encrypt_def decrypt_def sign_def verify_def Let_def array_includes_def

lemmas error_defs = UnsupportedAlgorithm_def UsageDenied_def NotExtractable_def

lemmas sample_defs =
  rsa_oaep_public_def rsa_oaep_private_def rsa_pss_public_def rsa_pss_private_def
  hmac_secret_def aes_kw_secret_def rsaKey_def hmacKey_def aesKey_def or_default_def Let_def

lemma utf8_hello: "utf8 ''Hello World!'' = [72, 101, 108, 108, 111, 32, 87, 111, 114, 108, 100, 33]"
  by (simp add: utf8_def)

text \<open>Object spread: a property the overlay has is read from the overlay, and any
  other property from the base.\<close>

lemma get_prop_spread:
  "get_prop (spread a opts) p =
     (case opts of
        None \<Rightarrow> get_prop a p
      | Some b \<Rightarrow> (case b p of None \<Rightarrow> get_prop a p | Some v \<Rightarrow> v))"
  by (simp add: spread_def get_prop_def map_add_def split: option.splits)

text \<open>The role filter of \<open>importKey\<close>, for each of the two roles it names.\<close>

lemma public_filter:
  "(\<lambda>usage. if Public = Public \<and> (usage = Sign \<or> usage = UnwrapKey \<or> usage = Decrypt)
        then False
        else if Public = Private \<and> (usage = Verify \<or> usage = WrapKey \<or> usage = Encrypt)
        then False else True) = (\<lambda>u. u \<notin> {Sign, UnwrapKey, Decrypt})"
  by auto

lemma private_filter:
  "(\<lambda>usage. if Private = Public \<and> (usage = Sign \<or> usage = UnwrapKey \<or> usage = Decrypt)
        then False
        else if Private = Private \<and> (usage = Verify \<or> usage = WrapKey \<or> usage = Encrypt)
        then False else True) = (\<lambda>u. u \<notin> {Verify, WrapKey, Encrypt})"
  by auto

text \<open>With the second argument of \<open>generateKey\<close> present, that argument is the
  extractability flag the engine receives.\<close>

lemma generateKey_override:
  "generateKey p (Some e) = Inr (SubtleGenerateKey (KeyGenParams.algorithm p) e (keyUsages p))"
  by (simp add: generateKey_def)

section \<open>The profile builders\<close>

text \<open>
  C1. Each builder yields the algorithm name and the usage list of its row of the
  purpose table, whatever the tunables (given or left to their defaults): EC Signing is
  ECDSA with sign, verify; EC Encrypting is ECDH with deriveKey, deriveBits; RSA Signing
  is RSA-PSS with sign, verify; RSA Encrypting is RSA-OAEP with encrypt, decrypt, wrapKey,
  unwrapKey; AES Wrapping is AES-KW with wrapKey, unwrapKey; AES Integrity protection,
  Fixed length encryption and Variable length encryption are AES-GCM, AES-CBC and AES-CTR
  with encrypt, decrypt; HMAC is HMAC with sign, verify; Ed25519 is Ed25519 with sign,
  verify; X25519 is X25519 with deriveKey, deriveBits. Every profile is extractable.
\<close>

theorem profile_table:
  "get_prop (KeyGenParams.algorithm (ecKey Signing c)) ''name'' = Str ''ECDSA''
     \<and> keyUsages (ecKey Signing c) = [Sign, Verify]
   \<and> get_prop (KeyGenParams.algorithm (ecKey Encrypting c)) ''name'' = Str ''ECDH''
     \<and> keyUsages (ecKey Encrypting c) = [DeriveKey, DeriveBits]
   \<and> get_prop (KeyGenParams.algorithm (rsaKey Signing n h)) ''name'' = Str ''RSA-PSS''
     \<and> keyUsages (rsaKey Signing n h) = [Sign, Verify]
   \<and> get_prop (KeyGenParams.algorithm (rsaKey Encrypting n h)) ''name'' = Str ''RSA-OAEP''
     \<and> keyUsages (rsaKey Encrypting n h) = [Encrypt, Decrypt, WrapKey, UnwrapKey]
   \<and> get_prop (KeyGenParams.algorithm (aesKey Wrapping l)) ''name'' = Str ''AES-KW''
     \<and> keyUsages (aesKey Wrapping l) = [WrapKey, UnwrapKey]
   \<and> get_prop (KeyGenParams.algorithm (aesKey Integrity_protection l)) ''name'' = Str ''AES-GCM''
     \<and> keyUsages (aesKey Integrity_protection l) = [Encrypt, Decrypt]
   \<and> get_prop (KeyGenParams.algorithm (aesKey Fixed_length_encryption l)) ''name'' = Str ''AES-CBC''
     \<and> keyUsages (aesKey Fixed_length_encryption l) = [Encrypt, Decrypt]
   \<and> get_prop (KeyGenParams.algorithm (aesKey Variable_length_encryption l)) ''name'' = Str ''AES-CTR''
     \<and> keyUsages (aesKey Variable_length_encryption l) = [Encrypt, Decrypt]
   \<and> get_prop (KeyGenParams.algorithm (hmacKey h m)) ''name'' = Str ''HMAC''
     \<and> keyUsages (hmacKey h m) = [Sign, Verify]
   \<and> get_prop (KeyGenParams.algorithm edKey) ''name'' = Str ''Ed25519''
     \<and> keyUsages edKey = [Sign, Verify]
   \<and> get_prop (KeyGenParams.algorithm xKey) ''name'' = Str ''X25519''
     \<and> keyUsages xKey = [DeriveKey, DeriveBits]
   \<and> KeyGenParams.extractable (ecKey p c) \<and> KeyGenParams.extractable (rsaKey p n h)
   \<and> KeyGenParams.extractable (aesKey a l) \<and> KeyGenParams.extractable (hmacKey h m)
   \<and> KeyGenParams.extractable edKey \<and> KeyGenParams.extractable xKey"
  by (simp add: ecKey_def rsaKey_def aesKey_def hmacKey_def edKey_def xKey_def Let_def)

section \<open>The checks of the four operations\<close>

text \<open>
  C2. encrypt and decrypt throw the error "Unsupported algorithm" exactly when the name
  in the key's own descriptor is none of RSA-OAEP, AES-CTR, AES-CBC, AES-GCM; sign and
  verify throw it exactly when that name is none of RSA-PSS, ECDSA, HMAC, Ed25519. The
  payload, the options and the usages of the key play no part.
\<close>

theorem unsupported_algorithm:
  "(encrypt enc d k opts = Inl UnsupportedAlgorithm) =
     (get_prop (CryptoKey.algorithm k) ''name''
        \<notin> {Str ''RSA-OAEP'', Str ''AES-CTR'', Str ''AES-CBC'', Str ''AES-GCM''})
   \<and> (decrypt enc d k opts = Inl UnsupportedAlgorithm) =
     (get_prop (CryptoKey.algorithm k) ''name''
        \<notin> {Str ''RSA-OAEP'', Str ''AES-CTR'', Str ''AES-CBC'', Str ''AES-GCM''})
   \<and> (sign enc d k opts = Inl UnsupportedAlgorithm) =
     (get_prop (CryptoKey.algorithm k) ''name''
        \<notin> {Str ''RSA-PSS'', Str ''ECDSA'', Str ''HMAC'', Str ''Ed25519''})
   \<and> (verify enc d k sg opts = Inl UnsupportedAlgorithm) =
     (get_prop (CryptoKey.algorithm k) ''name''
        \<notin> {Str ''RSA-PSS'', Str ''ECDSA'', Str ''HMAC'', Str ''Ed25519''})"
  by (simp add: operation_defs error_defs)

text \<open>An HMAC key and an AES-KW wrapping key cannot encrypt; an RSA-OAEP key passes the
  name check of encrypt and fails that of sign.\<close>

theorem unsupported_algorithm_witness:
  "encrypt utf8 (Text ''Hello World!'') hmac_secret None = Inl UnsupportedAlgorithm
   \<and> encrypt utf8 (Text ''Hello World!'') aes_kw_secret None = Inl UnsupportedAlgorithm
   \<and> encrypt utf8 (Text ''Hello World!'') rsa_oaep_private None \<noteq> Inl UnsupportedAlgorithm
   \<and> sign utf8 (Text ''Hello World!'') rsa_oaep_private None = Inl UnsupportedAlgorithm"
  using unsupported_algorithm [of utf8 "Text ''Hello World!''" hmac_secret None]
    unsupported_algorithm [of utf8 "Text ''Hello World!''" aes_kw_secret None]
    unsupported_algorithm [of utf8 "Text ''Hello World!''" rsa_oaep_private None]
  by (simp add: sample_defs)

text \<open>
  C3. For a key whose algorithm name is in the allow-list of the operation, encrypt,
  decrypt, sign and verify throw their "Key does not support ..." error exactly when
  the tag encrypt, decrypt, sign or verify is missing from the usages recorded in the key
  (the options of the call play no part). The name is checked first: a key whose
  name is outside the allow-list gets the "Unsupported algorithm" error, whether or not
  it has the usage.
\<close>

theorem usage_denied:
  "(get_prop (CryptoKey.algorithm k) ''name''
      \<in> {Str ''RSA-OAEP'', Str ''AES-CTR'', Str ''AES-CBC'', Str ''AES-GCM''} \<longrightarrow>
      (encrypt enc d k opts = Inl (UsageDenied ''encryption'')) = (Encrypt \<notin> set (usages k))
    \<and> (decrypt enc d k opts = Inl (UsageDenied ''decryption'')) = (Decrypt \<notin> set (usages k)))
   \<and> (get_prop (CryptoKey.algorithm k) ''name''
      \<in> {Str ''RSA-PSS'', Str ''ECDSA'', Str ''HMAC'', Str ''Ed25519''} \<longrightarrow>
      (sign enc d k opts = Inl (UsageDenied ''signing'')) = (Sign \<notin> set (usages k))
    \<and> (verify enc d k sg opts = Inl (UsageDenied ''verifying'')) = (Verify \<notin> set (usages k)))
   \<and> (get_prop (CryptoKey.algorithm k) ''name''
      \<notin> {Str ''RSA-OAEP'', Str ''AES-CTR'', Str ''AES-CBC'', Str ''AES-GCM''} \<longrightarrow>
      encrypt enc d k opts = Inl UnsupportedAlgorithm
    \<and> decrypt enc d k opts = Inl UnsupportedAlgorithm)
   \<and> (get_prop (CryptoKey.algorithm k) ''name''
      \<notin> {Str ''RSA-PSS'', Str ''ECDSA'', Str ''HMAC'', Str ''Ed25519''} \<longrightarrow>
      sign enc d k opts = Inl UnsupportedAlgorithm
    \<and> verify enc d k sg opts = Inl UnsupportedAlgorithm)"
  by (simp add: operation_defs error_defs)

text \<open>The private half of an RSA-OAEP pair cannot encrypt and can decrypt; the public
  half of an RSA-PSS pair cannot sign and can verify; with no usage at all and a name
  outside the allow-list, the error is the one of the name check.\<close>

theorem usage_denied_witness:
  "get_prop (CryptoKey.algorithm rsa_oaep_private) ''name'' = Str ''RSA-OAEP''
   \<and> encrypt utf8 (Text ''Hello World!'') rsa_oaep_private None = Inl (UsageDenied ''encryption'')
   \<and> decrypt utf8 (Text ''Hello World!'') rsa_oaep_private None \<noteq> Inl (UsageDenied ''decryption'')
   \<and> get_prop (CryptoKey.algorithm rsa_pss_public) ''name'' = Str ''RSA-PSS''
   \<and> sign utf8 (Text ''Hello World!'') rsa_pss_public None = Inl (UsageDenied ''signing'')
   \<and> verify utf8 (Text ''Hello World!'') rsa_pss_public [1, 2] None \<noteq> Inl (UsageDenied ''verifying'')
   \<and> encrypt utf8 (Text ''Hello World!'') (rsa_pss_public\<lparr>usages := []\<rparr>) None
       = Inl UnsupportedAlgorithm
   \<and> sign utf8 (Text ''Hello World!'') (rsa_oaep_private\<lparr>usages := []\<rparr>) None
       = Inl UnsupportedAlgorithm"
  using usage_denied [of rsa_oaep_private utf8 "Text ''Hello World!''" None]
    usage_denied [of rsa_pss_public utf8 "Text ''Hello World!''" None "[1, 2]"]
    usage_denied [of "rsa_pss_public\<lparr>usages := []\<rparr>" utf8 "Text ''Hello World!''" None]
    usage_denied [of "rsa_oaep_private\<lparr>usages := []\<rparr>" utf8 "Text ''Hello World!''" None]
  by (simp add: sample_defs)

section \<open>Import and export\<close>

text \<open>
  C4. importKey never throws: it hands the engine the format, the key material, the
  descriptor of the profile, the extractability (the override when given, else the
  profile's) and the usage list of the profile filtered by role. For the role public
  exactly sign, unwrapKey and decrypt are removed; for the role private exactly verify,
  wrapKey and encrypt; deriveKey and deriveBits stay under both. A public import
  of sign, verify, encrypt keeps verify, encrypt, and a private import keeps sign.
\<close>

theorem import_filters_by_role:
  "(\<exists>us. importKey f Public m p e =
        Inr (SubtleImportKey f m (KeyGenParams.algorithm p)
          (case e of Some x \<Rightarrow> x | None \<Rightarrow> KeyGenParams.extractable p) us)
      \<and> us = filter (\<lambda>u. u \<notin> {Sign, UnwrapKey, Decrypt}) (keyUsages p)
      \<and> (DeriveKey \<in> set us) = (DeriveKey \<in> set (keyUsages p))
      \<and> (DeriveBits \<in> set us) = (DeriveBits \<in> set (keyUsages p)))
   \<and> (\<exists>us. importKey f Private m p e =
        Inr (SubtleImportKey f m (KeyGenParams.algorithm p)
          (case e of Some x \<Rightarrow> x | None \<Rightarrow> KeyGenParams.extractable p) us)
      \<and> us = filter (\<lambda>u. u \<notin> {Verify, WrapKey, Encrypt}) (keyUsages p)
      \<and> (DeriveKey \<in> set us) = (DeriveKey \<in> set (keyUsages p))
      \<and> (DeriveBits \<in> set us) = (DeriveBits \<in> set (keyUsages p)))
   \<and> importKey f Public m (p\<lparr>keyUsages := [Sign, Verify, Encrypt]\<rparr>) e =
        Inr (SubtleImportKey f m (KeyGenParams.algorithm p)
          (case e of Some x \<Rightarrow> x | None \<Rightarrow> KeyGenParams.extractable p) [Verify, Encrypt])
   \<and> importKey f Private m (p\<lparr>keyUsages := [Sign, Verify, Encrypt]\<rparr>) e =
        Inr (SubtleImportKey f m (KeyGenParams.algorithm p)
          (case e of Some x \<Rightarrow> x | None \<Rightarrow> KeyGenParams.extractable p) [Sign])"
  unfolding importKey_def Let_def public_filter private_filter
  by (simp split: option.splits)

text \<open>Importing the public half of an RSA-PSS pair with the Signing profile keeps
  verify alone; importing the private half keeps sign alone.\<close>

theorem import_filters_by_role_witness:
  "importKey Spki Public (KeyBuffer [48, 130]) (rsaKey Signing None None) None =
     Inr (SubtleImportKey Spki (KeyBuffer [48, 130])
       (KeyGenParams.algorithm (rsaKey Signing None None)) True [Verify])
   \<and> importKey Pkcs8 Private (KeyBuffer [48, 130]) (rsaKey Signing None None) (Some False) =
     Inr (SubtleImportKey Pkcs8 (KeyBuffer [48, 130])
       (KeyGenParams.algorithm (rsaKey Signing None None)) False [Sign])"
  using import_filters_by_role [of Spki "KeyBuffer [48, 130]" "rsaKey Signing None None" None]
    import_filters_by_role [of Pkcs8 "KeyBuffer [48, 130]" "rsaKey Signing None None" "Some False"]
  by (simp add: rsaKey_def or_default_def)

text \<open>
  C5. exportKey of a key that is not extractable throws the error "Key does not support
  exporting" in every format, and the engine receives no call; exportKey of an
  extractable key throws nothing of its own: it makes the one call to the engine's
  export, with the format and the key, and returns what the engine answers.
\<close>

theorem export_gate:
  "(\<not> CryptoKey.extractable k \<longrightarrow>
      exportKey f k = Inl NotExtractable
      \<and> perform engine (exportKey f k) = (Threw NotExtractable, []))
   \<and> (CryptoKey.extractable k \<longrightarrow>
      exportKey f k = Inr (SubtleExportKey f k)
      \<and> perform engine (exportKey f k) =
          (Returned (engine (SubtleExportKey f k)), [SubtleExportKey f k]))"
  by (simp add: exportKey_def perform_def NotExtractable_def)

theorem export_gate_witness:
  "\<not> CryptoKey.extractable hmac_secret
   \<and> perform (\<lambda>c. c) (exportKey Raw hmac_secret) = (Threw NotExtractable, [])
   \<and> perform (\<lambda>c. c) (exportKey Jwk hmac_secret) = (Threw NotExtractable, [])
   \<and> CryptoKey.extractable rsa_pss_public
   \<and> perform (\<lambda>c. c) (exportKey Spki rsa_pss_public)
       = (Returned (SubtleExportKey Spki rsa_pss_public), [SubtleExportKey Spki rsa_pss_public])"
proof -
  have no: "\<not> CryptoKey.extractable hmac_secret"
    by (simp add: hmac_secret_def)
  have yes: "CryptoKey.extractable rsa_pss_public"
    by (simp add: rsa_pss_public_def)
  show ?thesis
    using no yes export_gate [of hmac_secret Raw "\<lambda>c. c"]
      export_gate [of hmac_secret Jwk "\<lambda>c. c"]
      export_gate [of rsa_pss_public Spki "\<lambda>c. c"]
    by blast
qed

section \<open>Validation comes before the engine\<close>

text \<open>
  C6. When the validation of encrypt, decrypt, sign or verify fails (the algorithm name
  is outside the allow-list of the operation, or the usage tag of the operation is
  missing from the key), the operation throws its error and the engine, whatever it
  is, has received no call.
\<close>

theorem validation_before_engine:
  "(get_prop (CryptoKey.algorithm k) ''name''
      \<notin> {Str ''RSA-OAEP'', Str ''AES-CTR'', Str ''AES-CBC'', Str ''AES-GCM''}
      \<or> Encrypt \<notin> set (usages k) \<longrightarrow>
    perform engine (encrypt enc d k opts) =
      (Threw (if get_prop (CryptoKey.algorithm k) ''name''
          \<in> {Str ''RSA-OAEP'', Str ''AES-CTR'', Str ''AES-CBC'', Str ''AES-GCM''}
        then UsageDenied ''encryption'' else UnsupportedAlgorithm), []))
   \<and> (get_prop (CryptoKey.algorithm k) ''name''
      \<notin> {Str ''RSA-OAEP'', Str ''AES-CTR'', Str ''AES-CBC'', Str ''AES-GCM''}
      \<or> Decrypt \<notin> set (usages k) \<longrightarrow>
    perform engine (decrypt enc d k opts) =
      (Threw (if get_prop (CryptoKey.algorithm k) ''name''
          \<in> {Str ''RSA-OAEP'', Str ''AES-CTR'', Str ''AES-CBC'', Str ''AES-GCM''}
        then UsageDenied ''decryption'' else UnsupportedAlgorithm), []))
   \<and> (get_prop (CryptoKey.algorithm k) ''name''
      \<notin> {Str ''RSA-PSS'', Str ''ECDSA'', Str ''HMAC'', Str ''Ed25519''}
      \<or> Sign \<notin> set (usages k) \<longrightarrow>
    perform engine (sign enc d k opts) =
      (Threw (if get_prop (CryptoKey.algorithm k) ''name''
          \<in> {Str ''RSA-PSS'', Str ''ECDSA'', Str ''HMAC'', Str ''Ed25519''}
        then UsageDenied ''signing'' else UnsupportedAlgorithm), []))
   \<and> (get_prop (CryptoKey.algorithm k) ''name''
      \<notin> {Str ''RSA-PSS'', Str ''ECDSA'', Str ''HMAC'', Str ''Ed25519''}
      \<or> Verify \<notin> set (usages k) \<longrightarrow>
    perform engine (verify enc d k sg opts) =
      (Threw (if get_prop (CryptoKey.algorithm k) ''name''
          \<in> {Str ''RSA-PSS'', Str ''ECDSA'', Str ''HMAC'', Str ''Ed25519''}
        then UsageDenied ''verifying'' else UnsupportedAlgorithm), []))"
  by (simp add: operation_defs error_defs perform_def)

theorem validation_before_engine_witness:
  "perform (\<lambda>c. c) (encrypt utf8 (Text ''Hello World!'') hmac_secret None)
     = (Threw UnsupportedAlgorithm, [])
   \<and> perform (\<lambda>c. c) (decrypt utf8 (ArrayBuffer [1, 2, 3]) rsa_oaep_public None)
     = (Threw (UsageDenied ''decryption''), [])
   \<and> perform (\<lambda>c. c) (sign utf8 (Text ''Hello World!'') rsa_pss_public None)
     = (Threw (UsageDenied ''signing''), [])
   \<and> perform (\<lambda>c. c) (verify utf8 (Text ''Hello World!'') aes_kw_secret [1, 2] None)
     = (Threw UnsupportedAlgorithm, [])"
  using validation_before_engine [of hmac_secret "\<lambda>c. c" utf8 "Text ''Hello World!''" None]
    validation_before_engine [of rsa_oaep_public "\<lambda>c. c" utf8 "ArrayBuffer [1, 2, 3]" None]
    validation_before_engine [of rsa_pss_public "\<lambda>c. c" utf8 "Text ''Hello World!''" None]
    validation_before_engine [of aes_kw_secret "\<lambda>c. c" utf8 "Text ''Hello World!''" None "[1, 2]"]
  by (simp add: sample_defs)

section \<open>Key generation\<close>

text \<open>
  C7. generateKey, called with a profile alone, makes the one call to the engine's key
  generation with the descriptor, the extractability flag and the usage list of the
  profile as they are; the caller gets whatever the engine answers, a failure included.
  generateKey throws no error of its own, with or without its second argument.
\<close>

theorem generate_delegates:
  "generateKey p None =
     Inr (SubtleGenerateKey (KeyGenParams.algorithm p) (KeyGenParams.extractable p) (keyUsages p))
   \<and> perform engine (generateKey p None) =
       (Returned (engine
          (SubtleGenerateKey (KeyGenParams.algorithm p) (KeyGenParams.extractable p) (keyUsages p))),
        [SubtleGenerateKey (KeyGenParams.algorithm p) (KeyGenParams.extractable p) (keyUsages p)])
   \<and> generateKey p e \<noteq> Inl err"
  by (simp add: generateKey_def perform_def)

text \<open>The first line of the example program: an RSA-OAEP pair from the Encrypting
  profile.\<close>

theorem generate_delegates_witness:
  "generateKey (rsaKey Encrypting None None) None =
     Inr (SubtleGenerateKey
       [''name'' \<mapsto> Str ''RSA-OAEP'', ''hash'' \<mapsto> Str ''SHA-256'',
        ''modulusLength'' \<mapsto> Num 2048, ''publicExponent'' \<mapsto> Buf [1, 0, 1]]
       True [Encrypt, Decrypt, WrapKey, UnwrapKey])"
  using generate_delegates [of "rsaKey Encrypting None None" "\<lambda>c. c" None UnsupportedAlgorithm]
  by (simp add: rsaKey_def or_default_def)

section \<open>What the engine receives\<close>

text \<open>
  C8. When the checks pass, each of encrypt, decrypt, sign and verify hands the engine
  the encoding of the payload (the platform's TextEncoder, which is UTF-8) when the
  payload is a string, and the payload itself when it is an ArrayBuffer.
\<close>

theorem payload_normalized:
  "(get_prop (CryptoKey.algorithm k) ''name''
      \<in> {Str ''RSA-OAEP'', Str ''AES-CTR'', Str ''AES-CBC'', Str ''AES-GCM''}
      \<and> Encrypt \<in> set (usages k) \<longrightarrow>
      encrypt enc (Text s) k opts
        = Inr (SubtleEncrypt (spread (CryptoKey.algorithm k) opts) k (enc s))
    \<and> encrypt enc (ArrayBuffer b) k opts
        = Inr (SubtleEncrypt (spread (CryptoKey.algorithm k) opts) k b))
   \<and> (get_prop (CryptoKey.algorithm k) ''name''
      \<in> {Str ''RSA-OAEP'', Str ''AES-CTR'', Str ''AES-CBC'', Str ''AES-GCM''}
      \<and> Decrypt \<in> set (usages k) \<longrightarrow>
      decrypt enc (Text s) k opts
        = Inr (SubtleDecrypt (spread (CryptoKey.algorithm k) opts) k (enc s))
    \<and> decrypt enc (ArrayBuffer b) k opts
        = Inr (SubtleDecrypt (spread (CryptoKey.algorithm k) opts) k b))
   \<and> (get_prop (CryptoKey.algorithm k) ''name''
      \<in> {Str ''RSA-PSS'', Str ''ECDSA'', Str ''HMAC'', Str ''Ed25519''}
      \<and> Sign \<in> set (usages k) \<longrightarrow>
      sign enc (Text s) k opts
        = Inr (SubtleSign (spread (CryptoKey.algorithm k) opts) k (enc s))
    \<and> sign enc (ArrayBuffer b) k opts
        = Inr (SubtleSign (spread (CryptoKey.algorithm k) opts) k b))
   \<and> (get_prop (CryptoKey.algorithm k) ''name''
      \<in> {Str ''RSA-PSS'', Str ''ECDSA'', Str ''HMAC'', Str ''Ed25519''}
      \<and> Verify \<in> set (usages k) \<longrightarrow>
      verify enc (Text s) k sg opts
        = Inr (SubtleVerify (spread (CryptoKey.algorithm k) opts) k sg (enc s))
    \<and> verify enc (ArrayBuffer b) k sg opts
        = Inr (SubtleVerify (spread (CryptoKey.algorithm k) opts) k sg b))"
  by (simp add: operation_defs)

text \<open>The example program: the text Hello World! encrypted with the public key reaches
  the engine as its twelve bytes; a buffer reaches it as it is.\<close>

theorem payload_normalized_witness:
  "encrypt utf8 (Text ''Hello World!'') rsa_oaep_public None
     = Inr (SubtleEncrypt (CryptoKey.algorithm rsa_oaep_public) rsa_oaep_public
         [72, 101, 108, 108, 111, 32, 87, 111, 114, 108, 100, 33])
   \<and> decrypt utf8 (ArrayBuffer [7, 8, 9]) rsa_oaep_private None
     = Inr (SubtleDecrypt (CryptoKey.algorithm rsa_oaep_private) rsa_oaep_private [7, 8, 9])
   \<and> sign utf8 (ArrayBuffer [7, 8, 9]) rsa_pss_private (Some [''saltLength'' \<mapsto> Num 32])
     = Inr (SubtleSign ((CryptoKey.algorithm rsa_pss_private)(''saltLength'' \<mapsto> Num 32))
         rsa_pss_private [7, 8, 9])
   \<and> verify utf8 (Text ''Hi'') rsa_pss_public [1, 2] (Some [''saltLength'' \<mapsto> Num 32])
     = Inr (SubtleVerify ((CryptoKey.algorithm rsa_pss_public)(''saltLength'' \<mapsto> Num 32))
         rsa_pss_public [1, 2] [72, 105])"
  using payload_normalized [of rsa_oaep_public utf8 "''Hello World!''" None]
    payload_normalized [of rsa_oaep_private utf8 _ None "[7, 8, 9]"]
    payload_normalized [of rsa_pss_private utf8 _ "Some [''saltLength'' \<mapsto> Num 32]" "[7, 8, 9]"]
    payload_normalized [of rsa_pss_public utf8 "''Hi''" "Some [''saltLength'' \<mapsto> Num 32]" _ "[1, 2]"]
  by (simp add: sample_defs spread_def utf8_def)

text \<open>
  C9. The descriptor that encrypt, decrypt, sign and verify hand the engine is the
  object spread of the options over the key's own descriptor. Its algorithm name is the
  name of the key's descriptor exactly when the options are absent, carry no property
  name, or carry the key's own name. Options that carry another name put that name in
  the descriptor the engine receives; the allow-list check has read the key's own name.
\<close>

theorem merged_name_kept_iff:
  "(encrypt enc d k opts = Inr c \<longrightarrow>
      (\<exists>p. c = SubtleEncrypt (spread (CryptoKey.algorithm k) opts) k p))
   \<and> (decrypt enc d k opts = Inr c \<longrightarrow>
      (\<exists>p. c = SubtleDecrypt (spread (CryptoKey.algorithm k) opts) k p))
   \<and> (sign enc d k opts = Inr c \<longrightarrow>
      (\<exists>p. c = SubtleSign (spread (CryptoKey.algorithm k) opts) k p))
   \<and> (verify enc d k sg opts = Inr c \<longrightarrow>
      (\<exists>p. c = SubtleVerify (spread (CryptoKey.algorithm k) opts) k sg p))
   \<and> (get_prop (spread (CryptoKey.algorithm k) opts) ''name''
        = get_prop (CryptoKey.algorithm k) ''name'')
     = (case opts of
          None \<Rightarrow> True
        | Some b \<Rightarrow>
            (case b ''name'' of
               None \<Rightarrow> True
             | Some v \<Rightarrow> v = get_prop (CryptoKey.algorithm k) ''name''))"
proof -
  have calls:
    "(encrypt enc d k opts = Inr c \<longrightarrow>
        (\<exists>p. c = SubtleEncrypt (spread (CryptoKey.algorithm k) opts) k p))
     \<and> (decrypt enc d k opts = Inr c \<longrightarrow>
        (\<exists>p. c = SubtleDecrypt (spread (CryptoKey.algorithm k) opts) k p))
     \<and> (sign enc d k opts = Inr c \<longrightarrow>
        (\<exists>p. c = SubtleSign (spread (CryptoKey.algorithm k) opts) k p))
     \<and> (verify enc d k sg opts = Inr c \<longrightarrow>
        (\<exists>p. c = SubtleVerify (spread (CryptoKey.algorithm k) opts) k sg p))"
    by (auto simp add: encrypt_def decrypt_def sign_def verify_def Let_def split: if_splits)
  have name:
    "(get_prop (spread (CryptoKey.algorithm k) opts) ''name''
        = get_prop (CryptoKey.algorithm k) ''name'')
     = (case opts of
          None \<Rightarrow> True
        | Some b \<Rightarrow>
            (case b ''name'' of
               None \<Rightarrow> True
             | Some v \<Rightarrow> v = get_prop (CryptoKey.algorithm k) ''name''))"
    by (simp add: get_prop_spread split: option.splits)
  from calls name show ?thesis by blast
qed

text \<open>The example program: signing with the salt length 32 as the option. The engine
  receives the descriptor of the key with the salt length added, under the name
  RSA-PSS.\<close>

theorem merged_name_kept_iff_witness:
  "sign utf8 (ArrayBuffer [7, 8, 9]) rsa_pss_private (Some [''saltLength'' \<mapsto> Num 32])
     = Inr (SubtleSign
         (spread (CryptoKey.algorithm rsa_pss_private) (Some [''saltLength'' \<mapsto> Num 32]))
         rsa_pss_private [7, 8, 9])
   \<and> get_prop (spread (CryptoKey.algorithm rsa_pss_private) (Some [''saltLength'' \<mapsto> Num 32]))
         ''name'' = Str ''RSA-PSS''
   \<and> get_prop (spread (CryptoKey.algorithm rsa_pss_private) (Some [''saltLength'' \<mapsto> Num 32]))
         ''saltLength'' = Num 32"
proof -
  let ?opts = "Some [''saltLength'' \<mapsto> Num 32]"
  let ?call = "SubtleSign (spread (CryptoKey.algorithm rsa_pss_private) ?opts)
         rsa_pss_private [7, 8, 9]"
  have run: "sign utf8 (ArrayBuffer [7, 8, 9]) rsa_pss_private ?opts = Inr ?call"
    by (simp add: sign_def array_includes_def sample_defs)
  have own: "get_prop (CryptoKey.algorithm rsa_pss_private) ''name'' = Str ''RSA-PSS''"
    by (simp add: sample_defs)
  have salt: "get_prop (spread (CryptoKey.algorithm rsa_pss_private) ?opts) ''saltLength'' = Num 32"
    by (simp add: get_prop_spread)
  from merged_name_kept_iff
    [of utf8 "ArrayBuffer [7, 8, 9]" rsa_pss_private ?opts ?call "[]"]
  have "get_prop (spread (CryptoKey.algorithm rsa_pss_private) ?opts) ''name''
      = get_prop (CryptoKey.algorithm rsa_pss_private) ''name''"
    by simp
  with run own salt show ?thesis by simp
qed

text \<open>Options that carry a name: encrypting with an RSA-OAEP key and the options
  \<^verbatim>\<open>{ name: "AES-GCM" }\<close> passes both checks, and the descriptor the engine receives
  bears the name AES-GCM.\<close>

theorem merged_name_counterexample:
  "encrypt utf8 (Text ''Hello World!'') rsa_oaep_public (Some [''name'' \<mapsto> Str ''AES-GCM''])
     = Inr (SubtleEncrypt
         ((CryptoKey.algorithm rsa_oaep_public)(''name'' \<mapsto> Str ''AES-GCM''))
         rsa_oaep_public
         [72, 101, 108, 108, 111, 32, 87, 111, 114, 108, 100, 33])
   \<and> get_prop ((CryptoKey.algorithm rsa_oaep_public)(''name'' \<mapsto> Str ''AES-GCM'')) ''name''
       = Str ''AES-GCM''
   \<and> get_prop (CryptoKey.algorithm rsa_oaep_public) ''name'' = Str ''RSA-OAEP''
   \<and> get_prop ((CryptoKey.algorithm rsa_oaep_public)(''name'' \<mapsto> Str ''AES-GCM'')) ''name''
       \<noteq> get_prop (CryptoKey.algorithm rsa_oaep_public) ''name''"
  by (simp add: encrypt_def array_includes_def spread_def sample_defs utf8_def)

section \<open>The third role\<close>

text \<open>
  C10. The role of importKey is the platform's key type, which has the third value
  secret. For that role nothing is filtered: the engine receives the usage list of the
  profile as it is, so a list with sign and decrypt next to verify and encrypt is kept
  whole.
\<close>

theorem import_secret_unfiltered:
  "importKey f Secret m p e =
     Inr (SubtleImportKey f m (KeyGenParams.algorithm p)
       (case e of Some x \<Rightarrow> x | None \<Rightarrow> KeyGenParams.extractable p) (keyUsages p))
   \<and> importKey f Secret m (p\<lparr>keyUsages := [Sign, Decrypt, Verify, Encrypt]\<rparr>) e =
     Inr (SubtleImportKey f m (KeyGenParams.algorithm p)
       (case e of Some x \<Rightarrow> x | None \<Rightarrow> KeyGenParams.extractable p)
       [Sign, Decrypt, Verify, Encrypt])"
  by (simp add: importKey_def split: option.splits)

text \<open>Importing a raw HMAC key with the HMAC profile keeps sign and verify.\<close>

theorem import_secret_unfiltered_witness:
  "importKey Raw Secret (KeyBuffer [1, 2, 3, 4]) (hmacKey None None) None =
     Inr (SubtleImportKey Raw (KeyBuffer [1, 2, 3, 4])
       (KeyGenParams.algorithm (hmacKey None None)) True [Sign, Verify])"
  using import_secret_unfiltered [of Raw "KeyBuffer [1, 2, 3, 4]" "hmacKey None None" None]
  by (simp add: hmacKey_def or_default_def)

end
